theory Spec2Isabelle
  imports Complex_Main
begin

section \<open>Values of the host language\<close>

text \<open>
  The client is TypeScript running in a browser. Text is kept as the list of its UTF-8
  bytes (\<^typ>\<open>string\<close>); every test the code makes on text (equality with an ASCII word,
  the collection-name pattern, emptiness) gives the same answer on that encoding.

  Numbers are IEEE doubles. A finite double is a rational, so \<open>Fin q\<close> over all rationals
  covers every finite double; the code under study only compares numbers and takes minima,
  it never adds or multiplies them, so no rounding is lost. Negative zero is identified
  with zero.
\<close>

datatype jsnum = Fin rat | NaN | PosInf | NegInf

datatype jsval =
    Undefined
  | Null
  | Bool bool
  | Num jsnum
  | Str string
  | Arr "jsval list"
  | Obj "(string \<times> jsval) list"

text \<open>The primitive values: \<open>undefined\<close>, \<open>null\<close>, a boolean, a number, a text.\<close>

datatype jsprim = PUndefined | PNull | PBool bool | PNum jsnum | PStr string

fun ofPrim :: "jsprim \<Rightarrow> jsval" where
  "ofPrim PUndefined = Undefined"
| "ofPrim PNull = Null"
| "ofPrim (PBool b) = Bool b"
| "ofPrim (PNum n) = Num n"
| "ofPrim (PStr s) = Str s"

text \<open>\<open>a === b\<close> on primitive values: the same value, except that NaN equals nothing.\<close>

definition strictEquals :: "jsprim \<Rightarrow> jsprim \<Rightarrow> bool" where
  "strictEquals a b = (a = b \<and> a \<noteq> PNum NaN)"

text \<open>\<open>Number.isFinite\<close> on a number.\<close>

fun isFinite :: "jsnum \<Rightarrow> bool" where
  "isFinite (Fin q) = True"
| "isFinite NaN = False"
| "isFinite PosInf = False"
| "isFinite NegInf = False"

text \<open>The comparisons \<open>a >= b\<close> and \<open>a > b\<close> of two numbers; any comparison with NaN is false.\<close>

fun jsGe :: "jsnum \<Rightarrow> jsnum \<Rightarrow> bool" where
  "jsGe NaN b = False"
| "jsGe a NaN = False"
| "jsGe PosInf b = True"
| "jsGe a NegInf = True"
| "jsGe NegInf b = False"
| "jsGe a PosInf = False"
| "jsGe (Fin x) (Fin y) = (y \<le> x)"

fun jsGt :: "jsnum \<Rightarrow> jsnum \<Rightarrow> bool" where
  "jsGt NaN b = False"
| "jsGt a NaN = False"
| "jsGt NegInf b = False"
| "jsGt a PosInf = False"
| "jsGt PosInf b = True"
| "jsGt a NegInf = True"
| "jsGt (Fin x) (Fin y) = (y < x)"


text \<open>Truthiness of a value, as \<open>!v\<close>, \<open>v || w\<close>, \<open>v ? a : b\<close> and \<open>Boolean(v)\<close> read it.\<close>

fun truthy :: "jsval \<Rightarrow> bool" where
  "truthy Undefined = False"
| "truthy Null = False"
| "truthy (Bool b) = b"
| "truthy (Num (Fin q)) = (q \<noteq> 0)"
| "truthy (Num NaN) = False"
| "truthy (Num PosInf) = True"
| "truthy (Num NegInf) = True"
| "truthy (Str s) = (s \<noteq> [])"
| "truthy (Arr xs) = True"
| "truthy (Obj kvs) = True"

text \<open>\<open>a || b\<close> and \<open>a ?? b\<close>.\<close>

definition jsOr :: "jsval \<Rightarrow> jsval \<Rightarrow> jsval" where
  "jsOr a b = (if truthy a then a else b)"

definition nullish :: "jsval \<Rightarrow> bool" where
  "nullish v = (v = Undefined \<or> v = Null)"

definition coalesce :: "jsval \<Rightarrow> jsval \<Rightarrow> jsval" where
  "coalesce a b = (if nullish a then b else a)"

text \<open>
  The TypeErrors the code can run into: reading a property of \<open>null\<close> or \<open>undefined\<close>,
  calling \<open>toLowerCase\<close> on a value that has no such method, and converting to a
  primitive an object that cannot be converted.
\<close>

datatype js_error = NullRead | NotAFunction | NotConvertible

text \<open>
  Reading a property. On an object the entry under the key is returned; the other
  non-nullish values have none of the properties the code asks for (\<open>data\<close>, \<open>status\<close>,
  \<open>name\<close>, ...), so the read gives \<open>undefined\<close>. \<open>v?.k\<close> gives \<open>undefined\<close> on \<open>null\<close> and
  \<open>undefined\<close>, where the plain \<open>v.k\<close> throws.
\<close>

fun optProp :: "jsval \<Rightarrow> string \<Rightarrow> jsval" where
  "optProp (Obj kvs) k = (case map_of kvs k of None \<Rightarrow> Undefined | Some v \<Rightarrow> v)"
| "optProp v k = Undefined"

definition getProp :: "jsval \<Rightarrow> string \<Rightarrow> js_error + jsval" where
  "getProp v k = (if nullish v then Inl NullRead else Inr (optProp v k))"

text \<open>
  The conversions between numbers and text (\<open>Number::toString\<close>, \<open>StringToNumber\<close>) and the
  wording of the engine's TypeErrors belong to the host; they round to doubles and are
  not computed here. Every function that needs them takes them as a parameter, so each
  result below holds whatever they are.
\<close>

record host =
  numberToString :: "jsnum \<Rightarrow> string"
  stringToNumber :: "string \<Rightarrow> jsnum"
  typeErrorText :: "js_error \<Rightarrow> string"

fun joinComma :: "string list \<Rightarrow> string" where
  "joinComma [] = []"
| "joinComma [s] = s"
| "joinComma (s # t # ss) = s @ '','' @ joinComma (t # ss)"

text \<open>
  Converting an object to a primitive calls its \<open>toString\<close>. A parsed JSON object has the
  one of \<open>Object.prototype\<close>, which answers \<open>[object Object]\<close>, unless it has a key
  \<open>toString\<close> of its own: that value is never a function, and the conversion throws a
  TypeError. An array is converted by joining the texts of its elements, so it throws
  if one of them does.
\<close>

fun convertible :: "jsval \<Rightarrow> bool" where
  "convertible (Obj kvs) = (map_of kvs ''toString'' = None)"
| "convertible (Arr xs) = list_all convertible xs"
| "convertible v = True"

text \<open>The text and the number of a value that converts.\<close>

fun textOf :: "host \<Rightarrow> jsval \<Rightarrow> string" where
  "textOf h Undefined = ''undefined''"
| "textOf h Null = ''null''"
| "textOf h (Bool b) = (if b then ''true'' else ''false'')"
| "textOf h (Num n) = numberToString h n"
| "textOf h (Str s) = s"
| "textOf h (Arr xs) =
     joinComma (map (\<lambda>x. if x = Undefined \<or> x = Null then [] else textOf h x) xs)"
| "textOf h (Obj kvs) = ''[object Object]''"

fun numberOf :: "host \<Rightarrow> jsval \<Rightarrow> jsnum" where
  "numberOf h Undefined = NaN"
| "numberOf h Null = Fin 0"
| "numberOf h (Bool b) = (if b then Fin 1 else Fin 0)"
| "numberOf h (Num n) = n"
| "numberOf h (Str s) = stringToNumber h s"
| "numberOf h (Arr xs) = stringToNumber h (textOf h (Arr xs))"
| "numberOf h (Obj kvs) = stringToNumber h (textOf h (Obj kvs))"

text \<open>\<open>String(v)\<close> and \<open>Number(v)\<close>.\<close>

definition String_js :: "host \<Rightarrow> jsval \<Rightarrow> js_error + string" where
  "String_js h v = (if convertible v then Inr (textOf h v) else Inl NotConvertible)"

definition Number_js :: "host \<Rightarrow> jsval \<Rightarrow> js_error + jsnum" where
  "Number_js h v = (if convertible v then Inr (numberOf h v) else Inl NotConvertible)"

text \<open>The text of a primitive value, as a template literal and a property key take it; a
  primitive value always converts.\<close>

definition idText :: "host \<Rightarrow> jsprim \<Rightarrow> string" where
  "idText h v = textOf h (ofPrim v)"

text \<open>\<open>String.prototype.toLowerCase\<close>, on the letters A to Z. Letters outside ASCII are left
  as they are: none of them lowercases into one of the seven words the normalizer
  compares with, so no comparison changes.\<close>

definition toLowerChar :: "char \<Rightarrow> char" where
  "toLowerChar c =
     (case map_of (zip ''ABCDEFGHIJKLMNOPQRSTUVWXYZ'' ''abcdefghijklmnopqrstuvwxyz'') c of
        None \<Rightarrow> c
      | Some l \<Rightarrow> l)"

definition toLowerCase :: "string \<Rightarrow> string" where
  "toLowerCase s = map toLowerChar s"

section \<open>Status Normalizer\<close>

datatype UploadProcessStatus = In_progress | Completed | Error

text \<open>
  \<open>normalizeApiStatus(status?: string | null)\<close>. Both call sites pass a value of type
  \<open>any\<close>, so the model takes any value: a falsy one is \<open>in_progress\<close>, a string is compared,
  and on any other value \<open>status.toLowerCase\<close> is not a function and the call throws.
\<close>

definition normalizeApiStatus :: "jsval \<Rightarrow> js_error + UploadProcessStatus" where
  "normalizeApiStatus status =
     (if \<not> truthy status then Inr In_progress
      else case status of
        Str s \<Rightarrow>
          (let lowered = toLowerCase s in
           if lowered = ''completed'' \<or> lowered = ''finished'' \<or> lowered = ''done''
           then Inr Completed
           else if lowered \<in> set [''error'', ''failed'', ''failed_with_errors'', ''cancelled'']
           then Inr Error
           else Inr In_progress)
      | _ \<Rightarrow> Inl NotAFunction)"

section \<open>Process Store\<close>

text \<open>
  \<open>UploadProcess\<close>. The collection and the URL are text and the status is one of the three
  states. \<open>stage\<close>, \<open>message\<close>, \<open>notificationId\<close> and \<open>lastUpdated\<close> are copied unexamined from
  answers of type \<open>any\<close> (the backend's or the persisted copy), so they hold whatever value
  arrived. The identifier too: \<open>handleSubmit\<close> stores \<open>data.processing_id\<close> as it is, a
  text, a number, a boolean, \<open>null\<close>, or nothing at all when the answer has none (only
  the loader makes it a text). An identifier that is an array or an object is outside
  this model: such a value is compared by identity and may fail to convert to the text
  of a request.
\<close>

record UploadProcess =
  processingId :: jsprim
  collectionName :: string
  sourceUrl :: string
  status :: UploadProcessStatus
  percentage :: jsnum
  stage :: jsval
  message :: jsval
  notificationId :: jsval
  lastUpdated :: jsval


text \<open>The state update of \<open>handleRemoveProcess\<close>.\<close>

definition removeProcess :: "jsprim \<Rightarrow> UploadProcess list \<Rightarrow> UploadProcess list" where
  "removeProcess processId prev =
     filter (\<lambda>item. \<not> strictEquals (processingId item) processId) prev"


definition listActive :: "UploadProcess list \<Rightarrow> UploadProcess list" where
  "listActive ps = filter (\<lambda>item. status item = In_progress) ps"

definition hasActiveProcesses :: "UploadProcess list \<Rightarrow> bool" where
  "hasActiveProcesses ps = list_ex (\<lambda>item. status item = In_progress) ps"

section \<open>Notifications requested by the uploader\<close>

text \<open>
  The notification context is used through \<open>addNotification\<close> and \<open>updateNotification\<close>
  only; a run of the uploader is modelled with the list of the calls it makes, in order,
  together with the removal of the two per-process keys (\<open>removeProcessArtifacts\<close>, which
  builds the keys from the text of the identifier).
\<close>

record notification =
  n_type :: string
  n_title :: string
  n_message :: jsval
  n_processingId :: "jsprim option"
  n_autoClose :: bool
  n_duration :: "nat option"

datatype effect =
    AddNotification notification
  | UpdateNotification jsval notification
  | RemoveArtifacts string

definition completedText :: "string \<Rightarrow> string" where
  "completedText collection =
     ''Documentos cargados exitosamente en la colecci'' @ [CHR 0xC3, CHR 0xB3] @ ''n ''
       @ [CHR 0x22] @ collection @ [CHR 0x22]"

definition errorText :: string where
  "errorText =
     ''Ocurri'' @ [CHR 0xC3, CHR 0xB3]
       @ '' un problema al cargar los documentos. Revisa los detalles e int''
       @ [CHR 0xC3, CHR 0xA9] @ ''ntalo nuevamente.''"

definition handleStatusTransition ::
  "host \<Rightarrow> UploadProcess \<Rightarrow> UploadProcessStatus \<Rightarrow> jsval \<Rightarrow> effect list" where
  "handleStatusTransition h process nextStatus payloadMessage =
     (if \<not> truthy (notificationId process) then []
      else
        (if nextStatus = Completed then
           [UpdateNotification (notificationId process)
              \<lparr>n_type = ''success'', n_title = ''Procesamiento Completado'',
               n_message = jsOr payloadMessage (Str (completedText (collectionName process))),
               n_processingId = None, n_autoClose = True, n_duration = Some 10000\<rparr>,
            RemoveArtifacts (idText h (processingId process))]
         else [])
        @
        (if nextStatus = Error then
           [UpdateNotification (notificationId process)
              \<lparr>n_type = ''error'', n_title = ''Error en Procesamiento'',
               n_message = jsOr payloadMessage (Str errorText),
               n_processingId = None, n_autoClose = False, n_duration = None\<rparr>,
            RemoveArtifacts (idText h (processingId process))]
         else []))"

section \<open>Poller: one tick\<close>

text \<open>
  The entry written into \<open>updates\<close> for one process. All four branches of the source set
  \<open>percentage\<close>, \<open>stage\<close>, \<open>message\<close> and \<open>lastUpdated\<close>; only the two terminal branches set
  \<open>status\<close>.
\<close>

record ProcessUpdate =
  u_status :: "UploadProcessStatus option"
  u_percentage :: jsnum
  u_stage :: jsval
  u_message :: jsval
  u_lastUpdated :: jsval

text \<open>
  What the status request of one process came to: \<open>Rejected msg\<close> when \<open>fetch\<close> or
  \<open>res.json()\<close> threw an error whose message reads \<open>msg\<close>, \<open>Resolved data\<close> when a JSON body
  was read. The HTTP status code is not looked at by the source. The request is made to
  the URL that ends with the text of the identifier, so the backend of a tick answers
  by that text: two processes with the same text are requested at the same URL at
  the same moment, and are taken to get the same answer.
\<close>

datatype fetch_outcome = Rejected string | Resolved jsval

record poll_env =
  fetchStatus :: "string \<Rightarrow> fetch_outcome"
  nowISO :: "string \<Rightarrow> string"

text \<open>\<open>Number(data?.data?.progress?.percentage) || 0\<close>.\<close>

definition reportedPercentage :: "host \<Rightarrow> jsval \<Rightarrow> js_error + jsnum" where
  "reportedPercentage h data =
     (case Number_js h (optProp (optProp (optProp data ''data'') ''progress'') ''percentage'') of
        Inl e \<Rightarrow> Inl e
      | Inr reported \<Rightarrow> Inr (if truthy (Num reported) then reported else Fin 0))"

text \<open>The \<open>try\<close> block, from the parsed body on.\<close>

definition processResponse ::
  "host \<Rightarrow> string \<Rightarrow> UploadProcess \<Rightarrow> jsval \<Rightarrow> js_error + (ProcessUpdate \<times> effect list)" where
  "processResponse h now process data =
     (case reportedPercentage h data of
        Inl e \<Rightarrow> Inl e
      | Inr reported \<Rightarrow>
     (let percentage = reported;
          stage = coalesce (coalesce (optProp (optProp (optProp data ''data'') ''progress'') ''stage'')
                              (stage process)) Null;
          message = coalesce (coalesce (optProp data ''message'') (message process)) Null
      in case normalizeApiStatus (optProp data ''status'') of
           Inl e \<Rightarrow> Inl e
         | Inr statusFromApi \<Rightarrow>
             if optProp data ''success'' = Bool False \<or> statusFromApi = Error then
               Inr (\<lparr>u_status = Some Error, u_percentage = percentage, u_stage = stage,
                     u_message = jsOr (optProp data ''error'') (jsOr (optProp data ''message'') message),
                     u_lastUpdated = Str now\<rparr>,
                    handleStatusTransition h process Error
                      (jsOr (optProp data ''error'') (optProp data ''message'')))
             else if statusFromApi = Completed
                     \<or> (optProp data ''success'' = Bool True \<and> jsGe percentage (Fin 100)) then
               Inr (\<lparr>u_status = Some Completed, u_percentage = Fin 100, u_stage = stage,
                     u_message = message, u_lastUpdated = Str now\<rparr>,
                    handleStatusTransition h process Completed message)
             else
               Inr (\<lparr>u_status = None, u_percentage = percentage, u_stage = stage,
                     u_message = message, u_lastUpdated = Str now\<rparr>, [])))"

text \<open>The \<open>catch\<close> block.\<close>

definition pollFailure :: "string \<Rightarrow> UploadProcess \<Rightarrow> string \<Rightarrow> ProcessUpdate \<times> effect list" where
  "pollFailure now process errorMessage =
     (let warningMessage = ''No se pudo verificar el estado del procesamiento: '' @ errorMessage
      in (\<lparr>u_status = None, u_percentage = percentage process, u_stage = stage process,
           u_message = Str warningMessage, u_lastUpdated = Str now\<rparr>,
          [AddNotification
             \<lparr>n_type = ''warning'', n_title = ''Error de Red'', n_message = Str warningMessage,
              n_processingId = Some (processingId process), n_autoClose = False,
              n_duration = None\<rparr>]))"

definition pollProcess :: "host \<Rightarrow> poll_env \<Rightarrow> UploadProcess \<Rightarrow> ProcessUpdate \<times> effect list" where
  "pollProcess h env process =
     (let now = nowISO env (idText h (processingId process)) in
      case fetchStatus env (idText h (processingId process)) of
        Rejected errorMessage \<Rightarrow> pollFailure now process errorMessage
      | Resolved data \<Rightarrow>
          (case processResponse h now process data of
             Inl e \<Rightarrow> pollFailure now process (typeErrorText h e)
           | Inr r \<Rightarrow> r))"

text \<open>
  \<open>updates\<close>, the record that the requests of one tick fill. Its keys are property keys:
  the texts of the identifiers. The requests are answered in some order; it is taken to
  be the order of the list. A later write under the same key replaces the earlier one,
  which is what looking a key up in the reversed list of writes gives.
\<close>

definition pollUpdates :: "host \<Rightarrow> poll_env \<Rightarrow> UploadProcess list \<Rightarrow> (string \<rightharpoonup> ProcessUpdate)" where
  "pollUpdates h env activeProcesses =
     map_of (rev (map (\<lambda>process. (idText h (processingId process), fst (pollProcess h env process)))
                      activeProcesses))"

definition pollEffects :: "host \<Rightarrow> poll_env \<Rightarrow> UploadProcess list \<Rightarrow> effect list" where
  "pollEffects h env activeProcesses =
     concat (map (\<lambda>process. snd (pollProcess h env process)) activeProcesses)"

text \<open>The spread \<open>{...item, ...updates[item.processingId]}\<close>.\<close>

definition mergeUpdate :: "UploadProcess \<Rightarrow> ProcessUpdate \<Rightarrow> UploadProcess" where
  "mergeUpdate item u =
     item\<lparr>status := (case u_status u of None \<Rightarrow> status item | Some s \<Rightarrow> s),
          percentage := u_percentage u, stage := u_stage u, message := u_message u,
          lastUpdated := u_lastUpdated u\<rparr>"

definition applyUpdates ::
  "host \<Rightarrow> (string \<rightharpoonup> ProcessUpdate) \<Rightarrow> UploadProcess list \<Rightarrow> UploadProcess list" where
  "applyUpdates h updates prev =
     map (\<lambda>item. case updates (idText h (processingId item)) of
                   None \<Rightarrow> item
                 | Some u \<Rightarrow> mergeUpdate item u) prev"

text \<open>
  \<open>updates\<close> is a plain object, and a plain object treats the key \<open>__proto__\<close> apart: a
  write under it sets the prototype of \<open>updates\<close> and adds no key. What is modelled of
  this:
  \<^item> \<open>Object.keys(updates)\<close> lists the keys written other than \<open>__proto__\<close> (\<open>ownKeys\<close>), so a
    tick whose active processes all have that key writes no state;
  \<^item> a read under \<open>__proto__\<close> returns what was last written under it, as a read under
    any written key does.

  After such a write an entry whose key was not written reads through the prototype:
  under the name of a field of the written update (\<open>stage\<close>, \<open>message\<close>, ...) it finds that
  field's value and spreads it over itself. A map does not have these reads. They
  concern only entries under whose key no request of the tick was made, and only ticks
  in which an active process has the key \<open>__proto__\<close>; \<open>plainKeys\<close> says that none has, and
  every result below that looks at such entries is stated for ticks with plain keys.
\<close>

definition ownKeys :: "host \<Rightarrow> UploadProcess list \<Rightarrow> string list" where
  "ownKeys h activeProcesses =
     filter (\<lambda>k. k \<noteq> ''__proto__'') (map (\<lambda>process. idText h (processingId process)) activeProcesses)"

definition plainKeys :: "host \<Rightarrow> UploadProcess list \<Rightarrow> bool" where
  "plainKeys h activeProcesses =
     list_all (\<lambda>process. idText h (processingId process) \<noteq> ''__proto__'') activeProcesses"

text \<open>
  \<open>pollStatuses\<close>. The active processes are read from \<open>processesRef.current\<close> when the tick
  starts (\<open>current\<close>); the updates are applied to the state as it is when the answers have
  all arrived (\<open>prev\<close>), which differs from \<open>current\<close> if the user removed or added a
  process in between. With no active process nothing is requested, and the state is
  written only if \<open>updates\<close> has a key.
\<close>

definition pollStatuses ::
  "host \<Rightarrow> poll_env \<Rightarrow> UploadProcess list \<Rightarrow> UploadProcess list \<Rightarrow> UploadProcess list \<times> effect list" where
  "pollStatuses h env current prev =
     (let activeProcesses = listActive current in
      if activeProcesses = [] then (prev, [])
      else if ownKeys h activeProcesses = [] then (prev, pollEffects h env activeProcesses)
      else (applyUpdates h (pollUpdates h env activeProcesses) prev,
            pollEffects h env activeProcesses))"

text \<open>A tick during which the store is not touched from outside.\<close>

definition pollTick :: "host \<Rightarrow> poll_env \<Rightarrow> UploadProcess list \<Rightarrow> UploadProcess list" where
  "pollTick h env s = fst (pollStatuses h env s s)"

text \<open>\<open>update(jobId, fields)\<close> of the store: the merge of one entry of \<open>updates\<close>.\<close>

definition updateProcess ::
  "host \<Rightarrow> jsprim \<Rightarrow> ProcessUpdate \<Rightarrow> UploadProcess list \<Rightarrow> UploadProcess list" where
  "updateProcess h jobId partialFields prev =
     applyUpdates h [idText h jobId \<mapsto> partialFields] prev"

section \<open>Persistence of the store\<close>

text \<open>
  What \<open>localStorage.getItem("url_uploader_processes")\<close> holds, as the initializer reads it:
  nothing (\<open>null\<close>, or the empty text, which is falsy too), a text that \<open>JSON.parse\<close>
  rejects, or a text that parses to a value.
\<close>

datatype stored_item = NoItem | Invalid | Json jsval

text \<open>
  The value that \<open>JSON.parse\<close> reads back from the text \<open>JSON.stringify\<close> writes for a
  value: a number that is not finite comes back as \<open>null\<close>, an \<open>undefined\<close> element of an
  array as \<open>null\<close>, and a property whose value is \<open>undefined\<close> is not written.
\<close>

fun jsonClone :: "jsval \<Rightarrow> jsval" where
  "jsonClone (Num n) = (if isFinite n then Num n else Null)"
| "jsonClone (Arr xs) = Arr (map (\<lambda>x. if x = Undefined then Null else jsonClone x) xs)"
| "jsonClone (Obj kvs) =
     Obj (map (\<lambda>(k, v). (k, jsonClone v)) (filter (\<lambda>(k, v). v \<noteq> Undefined) kvs))"
| "jsonClone v = v"

definition jsonProperty :: "string \<Rightarrow> jsval \<Rightarrow> (string \<times> jsval) list" where
  "jsonProperty k v = (if v = Undefined then [] else [(k, jsonClone v)])"

fun statusText :: "UploadProcessStatus \<Rightarrow> string" where
  "statusText In_progress = ''in_progress''"
| "statusText Completed = ''completed''"
| "statusText Error = ''error''"

definition processJson :: "UploadProcess \<Rightarrow> jsval" where
  "processJson p =
     Obj (jsonProperty ''processingId'' (ofPrim (processingId p))
          @ jsonProperty ''collectionName'' (Str (collectionName p))
          @ jsonProperty ''sourceUrl'' (Str (sourceUrl p))
          @ jsonProperty ''status'' (Str (statusText (status p)))
          @ jsonProperty ''percentage'' (Num (percentage p))
          @ jsonProperty ''stage'' (stage p)
          @ jsonProperty ''message'' (message p)
          @ jsonProperty ''notificationId'' (notificationId p)
          @ jsonProperty ''lastUpdated'' (lastUpdated p))"

text \<open>The persistence effect: an empty store removes the key, any other store is written
  as one JSON array.\<close>

definition persistProcesses :: "UploadProcess list \<Rightarrow> stored_item" where
  "persistProcesses processes =
     (if processes = [] then NoItem else Json (Arr (map processJson processes)))"

text \<open>The function mapped over the parsed array. \<open>item.processingId\<close> throws on \<open>null\<close>,
  \<open>normalizeApiStatus\<close> throws on a truthy status that is not text, and \<open>String\<close> and
  \<open>Number\<close> throw on a value that does not convert.\<close>

definition loadItem :: "host \<Rightarrow> string \<Rightarrow> jsval \<Rightarrow> js_error + UploadProcess" where
  "loadItem h now item =
     (case getProp item ''processingId'' of
        Inl e \<Rightarrow> Inl e
      | Inr rawProcessingId \<Rightarrow>
       (case String_js h rawProcessingId of
          Inl e \<Rightarrow> Inl e
        | Inr processingIdText \<Rightarrow>
       (case String_js h (coalesce (optProp item ''collectionName'') (Str [])) of
          Inl e \<Rightarrow> Inl e
        | Inr collectionNameText \<Rightarrow>
       (case String_js h (coalesce (optProp item ''sourceUrl'') (Str [])) of
          Inl e \<Rightarrow> Inl e
        | Inr sourceUrlText \<Rightarrow>
       (case normalizeApiStatus (optProp item ''status'') of
          Inl e \<Rightarrow> Inl e
        | Inr st \<Rightarrow>
       (case Number_js h (optProp item ''percentage'') of
          Inl e \<Rightarrow> Inl e
        | Inr parsedPercentage \<Rightarrow>
            Inr \<lparr>processingId = PStr processingIdText,
                 collectionName = collectionNameText,
                 sourceUrl = sourceUrlText,
                 status = st,
                 percentage = (if isFinite parsedPercentage then parsedPercentage else Fin 0),
                 stage = coalesce (optProp item ''stage'') Null,
                 message = coalesce (optProp item ''message'') Null,
                 notificationId = coalesce (optProp item ''notificationId'') Undefined,
                 lastUpdated = coalesce (optProp item ''lastUpdated'') (Str now)\<rparr>))))))"

fun loadItems :: "host \<Rightarrow> string \<Rightarrow> jsval list \<Rightarrow> js_error + UploadProcess list" where
  "loadItems h now [] = Inr []"
| "loadItems h now (item # items) =
     (case loadItem h now item of
        Inl e \<Rightarrow> Inl e
      | Inr p \<Rightarrow> (case loadItems h now items of Inl e \<Rightarrow> Inl e | Inr ps \<Rightarrow> Inr (p # ps)))"

text \<open>The initializer of the \<open>processes\<close> state, in a browser. Whatever is thrown inside the
  \<open>try\<close> is caught and the store starts empty.\<close>

definition loadProcesses :: "host \<Rightarrow> string \<Rightarrow> stored_item \<Rightarrow> UploadProcess list" where
  "loadProcesses h now stored =
     (case stored of
        NoItem \<Rightarrow> []
      | Invalid \<Rightarrow> []
      | Json parsed \<Rightarrow>
          (case parsed of
             Arr items \<Rightarrow>
               (case loadItems h now items of
                  Inl e \<Rightarrow> []
                | Inr ps \<Rightarrow> filter (\<lambda>item. truthy (ofPrim (processingId item))) ps)
           | _ \<Rightarrow> []))"

section \<open>Rendering of the percentage\<close>





section \<open>Poller: the timer\<close>

text \<open>
  The polling effect is a React effect with dependencies \<open>[baseUrl, hasActiveProcesses]\<close>:
  it runs after the first render and after every render in which a dependency changed,
  the cleanup returned by its previous run being called first. The component's side is
  \<open>pollingIntervalRef\<close>; the host's side is the set of intervals that were set and not yet
  cleared, and the next handle \<open>setInterval\<close> will return (handles are positive, so a
  stored handle is truthy).
\<close>

record poller =
  intervalRef :: "nat option"
  liveTimers :: "nat set"
  nextTimer :: nat
  lastDeps :: "(string \<times> bool) option"
  hasCleanup :: bool

definition mountedPoller :: poller where
  "mountedPoller =
     \<lparr>intervalRef = None, liveTimers = {}, nextTimer = 1, lastDeps = None, hasCleanup = False\<rparr>"

text \<open>\<open>if (pollingIntervalRef.current) { clearInterval(...); pollingIntervalRef.current = null; }\<close>\<close>

definition clearPollingInterval :: "poller \<Rightarrow> poller" where
  "clearPollingInterval st =
     (case intervalRef st of
        None \<Rightarrow> st
      | Some t \<Rightarrow> st\<lparr>liveTimers := liveTimers st - {t}, intervalRef := None\<rparr>)"

text \<open>The body of the effect. With an active process it calls \<open>pollStatuses\<close> once (a tick
  of the store, modelled apart) and sets the interval.\<close>

definition pollingEffect :: "bool \<Rightarrow> poller \<Rightarrow> poller" where
  "pollingEffect active st =
     (if \<not> active then (clearPollingInterval st)\<lparr>hasCleanup := False\<rparr>
      else st\<lparr>intervalRef := Some (nextTimer st),
              liveTimers := insert (nextTimer st) (liveTimers st),
              nextTimer := Suc (nextTimer st),
              hasCleanup := True\<rparr>)"

text \<open>One committed render with the given \<open>baseUrl\<close> and store.\<close>

definition commitRender :: "string \<Rightarrow> UploadProcess list \<Rightarrow> poller \<Rightarrow> poller" where
  "commitRender baseUrl processes st =
     (let active = hasActiveProcesses processes in
      if lastDeps st = Some (baseUrl, active) then st
      else (pollingEffect active (if hasCleanup st then clearPollingInterval st else st))
             \<lparr>lastDeps := Some (baseUrl, active)\<rparr>)"

definition renders :: "(string \<times> UploadProcess list) list \<Rightarrow> poller \<Rightarrow> poller" where
  "renders rs st = foldl (\<lambda>st (baseUrl, processes). commitRender baseUrl processes st) st rs"

datatype poller_state = Idle | Polling

definition pollerState :: "poller \<Rightarrow> poller_state" where
  "pollerState st = (if liveTimers st = {} then Idle else Polling)"

section \<open>Collections of the configuration panel\<close>

text \<open>
  The characters \<open>String.prototype.trim\<close> removes (WhiteSpace and LineTerminator of the
  language standard), each as its UTF-8 bytes: U+0009 to U+000D, U+0020, U+00A0, U+1680,
  U+2000 to U+200A, U+2028, U+2029, U+202F, U+205F, U+3000 and U+FEFF.
\<close>

definition whiteSpace :: "string list" where
  "whiteSpace =
     [[CHR 0x09], [CHR 0x0A], [CHR 0x0B], [CHR 0x0C], [CHR 0x0D], [CHR 0x20],
      [CHR 0xC2, CHR 0xA0],
      [CHR 0xE1, CHR 0x9A, CHR 0x80],
      [CHR 0xE2, CHR 0x80, CHR 0x80], [CHR 0xE2, CHR 0x80, CHR 0x81],
      [CHR 0xE2, CHR 0x80, CHR 0x82], [CHR 0xE2, CHR 0x80, CHR 0x83],
      [CHR 0xE2, CHR 0x80, CHR 0x84], [CHR 0xE2, CHR 0x80, CHR 0x85],
      [CHR 0xE2, CHR 0x80, CHR 0x86], [CHR 0xE2, CHR 0x80, CHR 0x87],
      [CHR 0xE2, CHR 0x80, CHR 0x88], [CHR 0xE2, CHR 0x80, CHR 0x89],
      [CHR 0xE2, CHR 0x80, CHR 0x8A],
      [CHR 0xE2, CHR 0x80, CHR 0xA8], [CHR 0xE2, CHR 0x80, CHR 0xA9],
      [CHR 0xE2, CHR 0x80, CHR 0xAF],
      [CHR 0xE2, CHR 0x81, CHR 0x9F],
      [CHR 0xE3, CHR 0x80, CHR 0x80],
      [CHR 0xEF, CHR 0xBB, CHR 0xBF]]"

text \<open>Removing, one after the other, the sequences of \<open>ws\<close> the text begins with. The
  recursion is on the text: \<open>n\<close> counts the bytes of the sequence being skipped.\<close>

definition startsWith :: "string \<Rightarrow> string \<Rightarrow> bool" where
  "startsWith s w = (take (length w) s = w)"

fun skipLeading :: "string list \<Rightarrow> nat \<Rightarrow> string \<Rightarrow> string" where
  "skipLeading ws (Suc n) (c # cs) = skipLeading ws n cs"
| "skipLeading ws (Suc n) [] = []"
| "skipLeading ws 0 [] = []"
| "skipLeading ws 0 (c # cs) =
     (case List.find (startsWith (c # cs)) (filter (\<lambda>w. w \<noteq> []) ws) of
        None \<Rightarrow> c # cs
      | Some w \<Rightarrow> skipLeading ws (length w - 1) cs)"

definition trimStart :: "string \<Rightarrow> string" where
  "trimStart s = skipLeading whiteSpace 0 s"

definition trimEnd :: "string \<Rightarrow> string" where
  "trimEnd s = rev (skipLeading (map rev whiteSpace) 0 (rev s))"

definition trim :: "string \<Rightarrow> string" where
  "trim s = trimEnd (trimStart s)"

text \<open>\<open>COLLECTION_REGEX.test(s)\<close> for \<open>/^[a-zA-Z0-9_-]+$/\<close>: at least one character, each of
  them a letter, a digit, an underscore or a hyphen.\<close>

definition collectionChar :: "char \<Rightarrow> bool" where
  "collectionChar c =
     (c \<in> set ''abcdefghijklmnopqrstuvwxyzABCDEFGHIJKLMNOPQRSTUVWXYZ0123456789_-'')"

definition collectionRegexTest :: "string \<Rightarrow> bool" where
  "collectionRegexTest s = (s \<noteq> [] \<and> list_all collectionChar s)"

fun isArray :: "jsval \<Rightarrow> bool" where
  "isArray (Arr xs) = True"
| "isArray v = False"

text \<open>The function mapped over the entries; \<open>None\<close> is its \<open>null\<close>.\<close>

fun entryName :: "jsval \<Rightarrow> string option" where
  "entryName (Str s) = Some (trim s)"
| "entryName (Obj kvs) =
     (case optProp (Obj kvs) ''name'' of Str n \<Rightarrow> Some (trim n) | _ \<Rightarrow> None)"
| "entryName v = None"

text \<open>\<open>Array.from(new Set(items))\<close>: the first occurrence of each text, in order.\<close>

definition arrayFromSet :: "string list \<Rightarrow> string list" where
  "arrayFromSet items = foldl (\<lambda>acc x. if x \<in> set acc then acc else acc @ [x]) [] items"

definition normalizeCollectionNames :: "jsval \<Rightarrow> string list" where
  "normalizeCollectionNames payload =
     (case List.find isArray
             [payload, optProp payload ''data'', optProp payload ''collections'',
              optProp (optProp payload ''data'') ''collections''] of
        Some (Arr candidates) \<Rightarrow>
          arrayFromSet
            (concat (map (\<lambda>item. case entryName item of
                                    None \<Rightarrow> []
                                  | Some name \<Rightarrow> if name \<noteq> [] \<and> collectionRegexTest name
                                                 then [name] else [])
                         candidates))
      | _ \<Rightarrow> [])"

section \<open>Seeding the default top-K\<close>

definition DEFAULT_TOP_K :: jsnum where
  "DEFAULT_TOP_K = Fin 5"

text \<open>The value of \<open>APP_CONFIG.DEFAULT_TOP_K\<close> after the module has loaded in a browser,
  from what \<open>localStorage.getItem\<close> returned under the top-K key (\<open>None\<close> for \<open>null\<close>).\<close>

definition seedDefaultTopK :: "host \<Rightarrow> string option \<Rightarrow> jsnum" where
  "seedDefaultTopK h storedTopK =
     (case storedTopK of
        None \<Rightarrow> DEFAULT_TOP_K
      | Some text \<Rightarrow>
          if \<not> truthy (Str text) then DEFAULT_TOP_K
          else (let parsed = numberOf h (Str text)
                in if isFinite parsed \<and> jsGt parsed (Fin 0) then parsed else DEFAULT_TOP_K))"

section \<open>Histories of the store\<close>




section \<open>A host for the examples\<close>

text \<open>The examples convert only the texts and numbers listed here, on which this host
  answers as a browser does.\<close>

definition exampleHost :: host where
  "exampleHost =
     \<lparr>numberToString =
        (\<lambda>n. if n = Fin 0 then ''0'' else if n = Fin 5 then ''5'' else if n = Fin 7 then ''7''
              else if n = PosInf then ''Infinity'' else ''NaN''),
      stringToNumber =
        (\<lambda>s. case map_of [(''0'', Fin 0), (''5'', Fin 5), (''10'', Fin 10), (''-3'', Fin (- 3)),
                            (''Infinity'', PosInf), (''1e999'', PosInf)] s of
                None \<Rightarrow> NaN
              | Some n \<Rightarrow> n),
      typeErrorText =
        (\<lambda>e. case e of
               NullRead \<Rightarrow> ''Cannot read properties of null''
             | NotAFunction \<Rightarrow> ''status.toLowerCase is not a function''
             | NotConvertible \<Rightarrow> ''Cannot convert object to primitive value'')\<rparr>"

definition exampleJob :: UploadProcess where
  "exampleJob =
     \<lparr>processingId = PStr ''abc123'', collectionName = ''manuales_collection'',
      sourceUrl = ''https://ex.com/doc.pdf'', status = In_progress, percentage = Fin 0,
      stage = Str ''document_download'', message = Str ''Procesamiento iniciado'',
      notificationId = Str ''n1'', lastUpdated = Str ''2025-01-01T00:00:00.000Z''\<rparr>"

text \<open>A backend that answers every status request with the same body, and one that
  cannot be reached.\<close>

definition answering :: "jsval \<Rightarrow> poll_env" where
  "answering data =
     \<lparr>fetchStatus = (\<lambda>processId. Resolved data),
      nowISO = (\<lambda>processId. ''2025-01-01T00:00:05.000Z'')\<rparr>"

definition failing :: "string \<Rightarrow> poll_env" where
  "failing errorMessage =
     \<lparr>fetchStatus = (\<lambda>processId. Rejected errorMessage),
      nowISO = (\<lambda>processId. ''2025-01-01T00:00:05.000Z'')\<rparr>"


section \<open>Notions used to state the properties\<close>

text \<open>\<open>handleRemoveProcess\<close> with the calls it makes: the notification of the process, if it
  is in the store and has one, is turned into an informational one, and the two
  per-process keys are removed.\<close>

definition handleRemoveProcess ::
  "host \<Rightarrow> jsprim \<Rightarrow> UploadProcess list \<Rightarrow> UploadProcess list \<times> effect list" where
  "handleRemoveProcess h processId s =
     (removeProcess processId s,
      (case List.find (\<lambda>item. strictEquals (processingId item) processId) s of
         None \<Rightarrow> []
       | Some target \<Rightarrow>
           if truthy (notificationId target) then
             [UpdateNotification (notificationId target)
                \<lparr>n_type = ''info'', n_title = ''Seguimiento detenido'',
                 n_message = Str ''Quitaste esta carga del listado manualmente.'',
                 n_processingId = None, n_autoClose = True, n_duration = Some 5000\<rparr>]
           else [])
      @ [RemoveArtifacts (idText h processId)])"


text \<open>What a process becomes when it is written by the persistence effect and read back by
  the initializer at the time \<open>now\<close>.\<close>

definition reloaded :: "host \<Rightarrow> string \<Rightarrow> UploadProcess \<Rightarrow> UploadProcess" where
  "reloaded h now p =
     p\<lparr>processingId := PStr (textOf h (jsonClone (ofPrim (processingId p)))),
       percentage := (if isFinite (percentage p) then percentage p else Fin 0),
       stage := coalesce (jsonClone (stage p)) Null,
       message := coalesce (jsonClone (message p)) Null,
       notificationId := coalesce (jsonClone (notificationId p)) Undefined,
       lastUpdated := coalesce (jsonClone (lastUpdated p)) (Str now)\<rparr>"

text \<open>A well-formed record: the percentage is finite, and the fields of type \<open>any\<close> hold what
  \<open>UploadProcess\<close> declares for them, the identifier a text, which is not empty, \<open>stage\<close>
  and \<open>message\<close> a text or \<open>null\<close>, \<open>notificationId\<close> a text or nothing, \<open>lastUpdated\<close> a
  text.\<close>

fun textId :: "jsprim \<Rightarrow> bool" where
  "textId (PStr s) = True"
| "textId v = False"

fun isText :: "jsval \<Rightarrow> bool" where
  "isText (Str s) = True"
| "isText v = False"

definition wellFormed :: "UploadProcess \<Rightarrow> bool" where
  "wellFormed p =
     (textId (processingId p) \<and> processingId p \<noteq> PStr [] \<and> isFinite (percentage p)
      \<and> (isText (stage p) \<or> stage p = Null)
      \<and> (isText (message p) \<or> message p = Null)
      \<and> (isText (notificationId p) \<or> notificationId p = Undefined)
      \<and> isText (lastUpdated p))"

text \<open>An element of the persisted array that the initializer's mapping accepts: it is not
  \<open>null\<close>, its status is falsy or a text, and its identifier, collection, URL and
  percentage convert.\<close>

definition loadable :: "jsval \<Rightarrow> bool" where
  "loadable item =
     (\<not> nullish item
      \<and> (\<not> truthy (optProp item ''status'') \<or> isText (optProp item ''status''))
      \<and> convertible (optProp item ''processingId'')
      \<and> convertible (optProp item ''collectionName'')
      \<and> convertible (optProp item ''sourceUrl'')
      \<and> convertible (optProp item ''percentage''))"

text \<open>The text of an entry of the collections answer: the entry itself when it is a text,
  its \<open>name\<close> when it is an object whose \<open>name\<close> is a text.\<close>

fun entryText :: "jsval \<Rightarrow> string option" where
  "entryText (Str s) = Some s"
| "entryText (Obj kvs) = (case optProp (Obj kvs) ''name'' of Str n \<Rightarrow> Some n | _ \<Rightarrow> None)"
| "entryText v = None"

text \<open>A list without its repetitions, each element where it first occurs.\<close>

definition firstOccurrences :: "string list \<Rightarrow> string list" where
  "firstOccurrences xs = rev (remdups (rev xs))"

text \<open>The entries' texts, trimmed, that match the pattern, without repetitions.\<close>

definition trimmedMatches :: "jsval list \<Rightarrow> string list" where
  "trimmedMatches entries =
     firstOccurrences (filter collectionRegexTest (map trim (List.map_filter entryText entries)))"

text \<open>The spec's words for the normalized list, to compare with: the entries that match the
  pattern, duplicates removed.\<close>

definition spec_matchingEntries :: "jsval list \<Rightarrow> string list" where
  "spec_matchingEntries entries =
     firstOccurrences (filter collectionRegexTest (List.map_filter entryText entries))"



definition storeKeys :: "host \<Rightarrow> UploadProcess list \<Rightarrow> string set" where
  "storeKeys h s = set (map (\<lambda>process. idText h (processingId process)) s)"



text \<open>What holds of the timer between two renders.\<close>

definition pollerInv :: "poller \<Rightarrow> bool" where
  "pollerInv st =
     (liveTimers st = set_option (intervalRef st)
      \<and> hasCleanup st = (intervalRef st \<noteq> None)
      \<and> (case lastDeps st of None \<Rightarrow> intervalRef st = None
                             | Some (baseUrl, active) \<Rightarrow> (intervalRef st \<noteq> None) = active))"

section \<open>Facts about one tick\<close>

lemma ids_applyUpdates: "map processingId (applyUpdates h u s) = map processingId s"
  by (induction s) (auto simp: applyUpdates_def mergeUpdate_def split: option.splits)



lemma applyUpdates_empty: "applyUpdates h Map.empty s = s"
  by (induction s) (auto simp: applyUpdates_def)





lemma pollUpdates_Nil: "pollUpdates h env [] = Map.empty"
  by (simp add: pollUpdates_def)






lemma ownKeys_plain: "plainKeys h xs \<Longrightarrow> xs \<noteq> [] \<Longrightarrow> ownKeys h xs \<noteq> []"
  by (cases xs) (simp_all add: plainKeys_def ownKeys_def)

lemma plain_tick:
  "plainKeys h (listActive current) \<Longrightarrow>
   fst (pollStatuses h env current s) = applyUpdates h (pollUpdates h env (listActive current)) s"
  by (cases "listActive current = []")
     (simp_all add: pollStatuses_def Let_def ownKeys_plain pollUpdates_Nil applyUpdates_empty)

lemma tick_effects: "snd (pollStatuses h env current s) = pollEffects h env (listActive current)"
  by (simp add: pollStatuses_def Let_def pollEffects_def)



section \<open>Facts about persisting and reloading\<close>

lemma normalize_statusText: "normalizeApiStatus (Str (statusText st)) = Inr st"
  by (cases st) (simp_all add: normalizeApiStatus_def toLowerCase_def toLowerChar_def)

lemma optProp_jsonProperty_hit:
  "optProp (Obj (jsonProperty k v @ rest)) k =
     (if v = Undefined then optProp (Obj rest) k else jsonClone v)"
  by (simp add: jsonProperty_def)

lemma optProp_jsonProperty_miss:
  "k' \<noteq> k \<Longrightarrow> optProp (Obj (jsonProperty k v @ rest)) k' = optProp (Obj rest) k'"
  by (simp add: jsonProperty_def)

lemma optProp_jsonProperty_last:
  "optProp (Obj (jsonProperty k v)) k' = (if k' = k \<and> v \<noteq> Undefined then jsonClone v else Undefined)"
  by (simp add: jsonProperty_def)

lemma coalesce_Undefined: "coalesce Undefined b = b"
  by (simp add: coalesce_def nullish_def)

lemma jsonClone_Undefined: "jsonClone Undefined = Undefined"
  by simp

lemma processJson_fields:
  "optProp (processJson p) ''processingId'' = jsonClone (ofPrim (processingId p))"
  "optProp (processJson p) ''collectionName'' = Str (collectionName p)"
  "optProp (processJson p) ''sourceUrl'' = Str (sourceUrl p)"
  "optProp (processJson p) ''status'' = Str (statusText (status p))"
  "optProp (processJson p) ''percentage'' = (if isFinite (percentage p) then Num (percentage p) else Null)"
  "optProp (processJson p) ''stage'' = jsonClone (stage p)"
  "optProp (processJson p) ''message'' = jsonClone (message p)"
  "optProp (processJson p) ''notificationId'' = jsonClone (notificationId p)"
  "optProp (processJson p) ''lastUpdated'' = jsonClone (lastUpdated p)"
  unfolding processJson_def
  by (simp_all add: optProp_jsonProperty_hit optProp_jsonProperty_miss optProp_jsonProperty_last
      del: optProp.simps map_of_append)

lemma processJson_not_nullish: "processJson p \<noteq> Undefined" "processJson p \<noteq> Null"
  by (simp_all add: processJson_def)

lemma convertible_primitive: "convertible (jsonClone (ofPrim v))"
  by (cases v) simp_all

lemma loadItem_processJson: "loadItem h now (processJson p) = Inr (reloaded h now p)"
  by (simp add: loadItem_def getProp_def processJson_not_nullish processJson_fields normalize_statusText
      reloaded_def coalesce_def nullish_def String_js_def Number_js_def Let_def convertible_primitive)

lemma loadItems_processJson: "loadItems h now (map processJson ps) = Inr (map (reloaded h now) ps)"
  by (induction ps) (simp_all add: loadItem_processJson)

lemma load_persist:
  "loadProcesses h now (persistProcesses ps) =
     filter (\<lambda>item. truthy (ofPrim (processingId item))) (map (reloaded h now) ps)"
  by (simp add: loadProcesses_def persistProcesses_def loadItems_processJson)

lemma loadItem_text: "loadItem h now item = Inr p \<Longrightarrow> textId (processingId p)"
  by (auto simp: loadItem_def Let_def split: sum.splits)

lemma loadItems_text:
  "loadItems h now items = Inr loaded \<Longrightarrow> list_all (\<lambda>p. textId (processingId p)) loaded"
  by (induction items arbitrary: loaded) (auto simp: loadItem_text split: sum.splits)




lemma reloaded_text:
  "textId (processingId p) \<Longrightarrow> processingId (reloaded h now p) = processingId p"
  by (cases "processingId p") (simp_all add: reloaded_def)


section \<open>Facts about histories\<close>





lemma ids_poll: "map processingId (fst (pollStatuses h env current s)) = map processingId s"
  by (simp add: pollStatuses_def Let_def ids_applyUpdates)









lemmas poll_eval =
  pollTick_def pollStatuses_def listActive_def pollUpdates_def pollEffects_def pollProcess_def
  processResponse_def reportedPercentage_def pollFailure_def normalizeApiStatus_def
  toLowerCase_def toLowerChar_def applyUpdates_def mergeUpdate_def coalesce_def nullish_def
  jsOr_def handleStatusTransition_def answering_def failing_def exampleJob_def exampleHost_def
  String_js_def Number_js_def ownKeys_def idText_def Let_def

section \<open>The poller's handling of an answer\<close>




section \<open>The status normalizer on optional texts\<close>

lemma classify_lowered:
  "(if l = ''completed'' \<or> l = ''finished'' \<or> l = ''done'' then Inr Completed
    else if l \<in> set [''error'', ''failed'', ''failed_with_errors'', ''cancelled''] then Inr Error
    else (Inr In_progress :: js_error + UploadProcessStatus)) =
   Inr (if l \<in> {''completed'', ''finished'', ''done''} then Completed
        else if l \<in> {''error'', ''failed'', ''failed_with_errors'', ''cancelled''} then Error
        else In_progress)"
  by simp

lemma normalizeApiStatus_Str:
  "normalizeApiStatus (Str t) =
       Inr (if toLowerCase t \<in> {''completed'', ''finished'', ''done''} then Completed
            else if toLowerCase t \<in> {''error'', ''failed'', ''failed_with_errors'', ''cancelled''} then Error
            else In_progress)"
proof (cases "t = []")
  case True
  then show ?thesis by (simp add: normalizeApiStatus_def toLowerCase_def)
next
  case False
  then have "normalizeApiStatus (Str t) =
    (if toLowerCase t = ''completed'' \<or> toLowerCase t = ''finished'' \<or> toLowerCase t = ''done'' then Inr Completed
    else if toLowerCase t \<in> set [''error'', ''failed'', ''failed_with_errors'', ''cancelled''] then Inr Error
    else Inr In_progress)"
    unfolding normalizeApiStatus_def Let_def by (simp only: truthy.simps jsval.case not_not if_False)
  then show ?thesis by (simp only: classify_lowered)
qed

text \<open>
  Claim C2. On an absent status (\<open>undefined\<close>), on \<open>null\<close> and on every text the normalizer
  returns a status and never throws: \<open>completed\<close> when the lowercased text is
  \<open>completed\<close>, \<open>finished\<close> or \<open>done\<close>, \<open>error\<close> when it is \<open>error\<close>, \<open>failed\<close>,
  \<open>failed_with_errors\<close> or \<open>cancelled\<close>, and \<open>in_progress\<close> for everything else, the empty
  text, \<open>null\<close> and \<open>undefined\<close> included. Two texts that differ only in the case of their
  letters get the same status.
\<close>

theorem normalizeApiStatus_total:
  "normalizeApiStatus Undefined = Inr In_progress
   \<and> normalizeApiStatus Null = Inr In_progress
   \<and> normalizeApiStatus (Str s) =
       Inr (if toLowerCase s \<in> {''completed'', ''finished'', ''done''} then Completed
            else if toLowerCase s \<in> {''error'', ''failed'', ''failed_with_errors'', ''cancelled''} then Error
            else In_progress)
   \<and> (\<forall>t. toLowerCase t = toLowerCase s \<longrightarrow> normalizeApiStatus (Str t) = normalizeApiStatus (Str s))"
proof (intro conjI allI impI)
  show "normalizeApiStatus Undefined = Inr In_progress" by (simp add: normalizeApiStatus_def)
  show "normalizeApiStatus Null = Inr In_progress" by (simp add: normalizeApiStatus_def)
  show "normalizeApiStatus (Str s) =
       Inr (if toLowerCase s \<in> {''completed'', ''finished'', ''done''} then Completed
            else if toLowerCase s \<in> {''error'', ''failed'', ''failed_with_errors'', ''cancelled''} then Error
            else In_progress)"
    by (rule normalizeApiStatus_Str)
next
  fix t assume "toLowerCase t = toLowerCase s"
  then show "normalizeApiStatus (Str t) = normalizeApiStatus (Str s)"
    by (simp only: normalizeApiStatus_Str)
qed

text \<open>The theorem at \<open>Completed\<close> and \<open>COMPLETED\<close>.\<close>

theorem normalizeApiStatus_total_witness:
  "normalizeApiStatus (Str ''Completed'') = Inr Completed
   \<and> normalizeApiStatus (Str ''COMPLETED'') = normalizeApiStatus (Str ''Completed'')"
proof -
  note total = normalizeApiStatus_total [of "''Completed''"]
  have "normalizeApiStatus (Str ''Completed'') = Inr Completed"
    using total [THEN conjunct2, THEN conjunct2, THEN conjunct1]
    by (simp add: toLowerCase_def toLowerChar_def)
  moreover have "normalizeApiStatus (Str ''COMPLETED'') = normalizeApiStatus (Str ''Completed'')"
    by (rule total [THEN conjunct2, THEN conjunct2, THEN conjunct2, THEN spec, THEN mp])
       (simp add: toLowerCase_def toLowerChar_def)
  ultimately show ?thesis by (rule conjI)
qed

section \<open>The rendered percentage\<close>





section \<open>Adding a job\<close>




section \<open>Updating and removing an absent job\<close>

lemma filter_absent:
  "\<forall>item \<in> set s. \<not> strictEquals (processingId item) jobId \<Longrightarrow>
   filter (\<lambda>item. \<not> strictEquals (processingId item) jobId) s = s"
  by (induction s) auto

lemma applyUpdates_cong:
  "\<forall>item \<in> set s. u (idText h (processingId item)) = u' (idText h (processingId item)) \<Longrightarrow>
   applyUpdates h u s = applyUpdates h u' s"
  by (induction s) (auto simp: applyUpdates_def)

lemma applyUpdates_absent:
  "k \<notin> storeKeys h s \<Longrightarrow> applyUpdates h (updates(k \<mapsto> u)) s = applyUpdates h updates s"
  by (rule applyUpdates_cong) (auto simp: storeKeys_def)

lemma last_write_filter:
  "k' \<noteq> k \<Longrightarrow>
   map_of (rev (map (\<lambda>p. (f p, g p)) (filter (\<lambda>p. f p \<noteq> k) xs))) k'
     = map_of (rev (map (\<lambda>p. (f p, g p)) xs)) k'"
  by (induction xs) (auto simp: map_add_def split: option.splits)

lemma pollUpdates_filter:
  "k' \<noteq> k \<Longrightarrow>
   pollUpdates h env (filter (\<lambda>p. idText h (processingId p) \<noteq> k) xs) k' = pollUpdates h env xs k'"
  unfolding pollUpdates_def by (rule last_write_filter)

lemma listActive_filter: "listActive (filter P xs) = filter P (listActive xs)"
  by (induction xs) (simp_all add: listActive_def)

lemma plainKeys_filter: "plainKeys h xs \<Longrightarrow> plainKeys h (filter P xs)"
  by (simp add: plainKeys_def list_all_iff)

lemma storeKeys_poll: "storeKeys h (fst (pollStatuses h env current s)) = storeKeys h s"
proof -
  have "map (\<lambda>v. idText h v) (map processingId (fst (pollStatuses h env current s)))
          = map (\<lambda>v. idText h v) (map processingId s)"
    by (simp only: ids_poll)
  then have "map (\<lambda>p. idText h (processingId p)) (fst (pollStatuses h env current s))
          = map (\<lambda>p. idText h (processingId p)) s"
    by (simp only: map_map comp_def)
  then show ?thesis by (simp only: storeKeys_def)
qed

lemma late_tick:
  assumes "k \<notin> storeKeys h s" and "plainKeys h (listActive current)"
  shows "fst (pollStatuses h env current s)
           = fst (pollStatuses h env (filter (\<lambda>p. idText h (processingId p) \<noteq> k) current) s)"
proof -
  let ?rest = "filter (\<lambda>p. idText h (processingId p) \<noteq> k) current"
  from assms(2) have "plainKeys h (listActive ?rest)"
    by (simp add: listActive_filter plainKeys_filter)
  then have "fst (pollStatuses h env ?rest s)
      = applyUpdates h (pollUpdates h env (filter (\<lambda>p. idText h (processingId p) \<noteq> k)
                                              (listActive current))) s"
    by (simp add: plain_tick listActive_filter)
  also have "\<dots> = applyUpdates h (pollUpdates h env (listActive current)) s"
  proof (rule applyUpdates_cong, rule ballI)
    fix item assume "item \<in> set s"
    with assms(1) have "idText h (processingId item) \<noteq> k" by (auto simp: storeKeys_def)
    then show "pollUpdates h env (filter (\<lambda>p. idText h (processingId p) \<noteq> k) (listActive current))
                 (idText h (processingId item))
               = pollUpdates h env (listActive current) (idText h (processingId item))"
      by (rule pollUpdates_filter)
  qed
  also from assms(2) have "\<dots> = fst (pollStatuses h env current s)"
    by (simp add: plain_tick)
  finally show ?thesis by simp
qed

text \<open>
  Claim C6 has the late answer for a removed job discarded, and an update for an
  identifier that is not in the store change nothing.
  \<^item> The store is not touched by the late answer, but the calls that the answer asks of
    the notifications are made: the example job is removed while its request is under
    way, which turns its notification into \<open>Seguimiento detenido\<close>; the answer
    \<open>completed\<close> then turns the same notification into \<open>Procesamiento Completado\<close>.
  \<^item> The updates are found by the text of the identifier: the answer for the job 7, a
    number that is not in the store, is merged into the job \<open>"7"\<close>, a text.
  \<^item> When the store holds a job with the identifier \<open>__proto__\<close>, the late answer for a
    removed job is the key that makes the tick write the state: with it the update of
    the \<open>__proto__\<close> job is merged, without it the state is not written.
\<close>

theorem late_answer_not_discarded:
  "handleRemoveProcess exampleHost (PStr ''abc123'') [exampleJob] =
     ([], [UpdateNotification (Str ''n1'')
             \<lparr>n_type = ''info'', n_title = ''Seguimiento detenido'',
              n_message = Str ''Quitaste esta carga del listado manualmente.'',
              n_processingId = None, n_autoClose = True, n_duration = Some 5000\<rparr>,
           RemoveArtifacts ''abc123''])
   \<and> pollStatuses exampleHost (answering (Obj [(''status'', Str ''completed'')]))
        [exampleJob] [] =
     ([], [UpdateNotification (Str ''n1'')
             \<lparr>n_type = ''success'', n_title = ''Procesamiento Completado'',
              n_message = Str ''Procesamiento iniciado'',
              n_processingId = None, n_autoClose = True, n_duration = Some 10000\<rparr>,
           RemoveArtifacts ''abc123''])
   \<and> PNum (Fin 7) \<notin> processingId ` set [exampleJob\<lparr>processingId := PStr ''7''\<rparr>]
   \<and> map status
        (fst (pollStatuses exampleHost (answering (Obj [(''status'', Str ''completed'')]))
                [exampleJob\<lparr>processingId := PNum (Fin 7)\<rparr>]
                [exampleJob\<lparr>processingId := PStr ''7''\<rparr>]))
       = [Completed]
   \<and> map status
        (fst (pollStatuses exampleHost (answering (Obj [(''status'', Str ''completed'')]))
                [exampleJob\<lparr>processingId := PStr ''__proto__''\<rparr>, exampleJob]
                [exampleJob\<lparr>processingId := PStr ''__proto__''\<rparr>]))
       = [Completed]
   \<and> map status
        (fst (pollStatuses exampleHost (answering (Obj [(''status'', Str ''completed'')]))
                [exampleJob\<lparr>processingId := PStr ''__proto__''\<rparr>]
                [exampleJob\<lparr>processingId := PStr ''__proto__''\<rparr>]))
       = [In_progress]"
  by (simp add: poll_eval handleRemoveProcess_def removeProcess_def strictEquals_def)

text \<open>
  Claim C6, as the source has it. Removing an identifier that no entry of the store has
  leaves the store as it is, and asks for no change of a notification. For an
  identifier whose key no entry of the store has, the key not being \<open>__proto__\<close>, the
  update leaves the store as it is, and an entry under that key in the updates of a tick
  changes nothing. A tick with plain keys, begun on whatever snapshot, leaves such a key
  out of the store, and the store it gives is the one that the tick without the jobs of
  that key gives: the late answer for a removed job does not enter the store. The calls
  of a tick are those of the requests of its snapshot, whatever the store has become:
  those of the late answer are made.
\<close>

theorem absent_job_noop:
  "((\<forall>item \<in> set s. \<not> strictEquals (processingId item) jobId) \<longrightarrow>
       removeProcess jobId s = s
       \<and> handleRemoveProcess h jobId s = (s, [RemoveArtifacts (idText h jobId)]))
   \<and> (idText h jobId \<notin> storeKeys h s \<and> idText h jobId \<noteq> ''__proto__'' \<longrightarrow>
       updateProcess h jobId partialFields s = s
       \<and> applyUpdates h (updates(idText h jobId \<mapsto> partialFields)) s = applyUpdates h updates s)
   \<and> (idText h jobId \<notin> storeKeys h s \<and> plainKeys h (listActive current) \<longrightarrow>
       idText h jobId \<notin> storeKeys h (fst (pollStatuses h env current s))
       \<and> fst (pollStatuses h env current s)
           = fst (pollStatuses h env
                    (filter (\<lambda>process. idText h (processingId process) \<noteq> idText h jobId) current) s))
   \<and> snd (pollStatuses h env current s) = pollEffects h env (listActive current)"
proof (intro conjI impI)
  assume a: "\<forall>item \<in> set s. \<not> strictEquals (processingId item) jobId"
  then show "removeProcess jobId s = s"
    by (simp add: removeProcess_def filter_absent)
  from a have "List.find (\<lambda>item. strictEquals (processingId item) jobId) s = None"
    by (simp add: find_None_iff)
  with a show "handleRemoveProcess h jobId s = (s, [RemoveArtifacts (idText h jobId)])"
    by (simp add: handleRemoveProcess_def removeProcess_def filter_absent)
next
  assume a: "idText h jobId \<notin> storeKeys h s \<and> idText h jobId \<noteq> ''__proto__''"
  then show "updateProcess h jobId partialFields s = s"
    by (simp add: updateProcess_def applyUpdates_absent applyUpdates_empty)
  from a show "applyUpdates h (updates(idText h jobId \<mapsto> partialFields)) s = applyUpdates h updates s"
    by (simp add: applyUpdates_absent)
next
  assume a: "idText h jobId \<notin> storeKeys h s \<and> plainKeys h (listActive current)"
  then show "idText h jobId \<notin> storeKeys h (fst (pollStatuses h env current s))"
    by (simp add: storeKeys_poll)
  from a show "fst (pollStatuses h env current s)
           = fst (pollStatuses h env
                    (filter (\<lambda>process. idText h (processingId process) \<noteq> idText h jobId) current) s)"
    by (simp add: late_tick)
next
  show "snd (pollStatuses h env current s) = pollEffects h env (listActive current)"
    by (rule tick_effects)
qed

text \<open>The theorem at a store of two jobs from which the example job was removed while a
  tick that will report both completed is under way.\<close>

theorem absent_job_noop_witness:
  "\<not> strictEquals (processingId (exampleJob\<lparr>processingId := PStr ''b''\<rparr>)) (PStr ''abc123'')
   \<and> idText exampleHost (PStr ''abc123'') \<notin> storeKeys exampleHost [exampleJob\<lparr>processingId := PStr ''b''\<rparr>]
   \<and> idText exampleHost (PStr ''abc123'') \<noteq> ''__proto__''
   \<and> plainKeys exampleHost (listActive [exampleJob, exampleJob\<lparr>processingId := PStr ''b''\<rparr>])
   \<and> removeProcess (PStr ''abc123'') [exampleJob\<lparr>processingId := PStr ''b''\<rparr>]
       = [exampleJob\<lparr>processingId := PStr ''b''\<rparr>]
   \<and> updateProcess exampleHost (PStr ''abc123'')
        \<lparr>u_status = Some Completed, u_percentage = Fin 100, u_stage = Null, u_message = Null,
         u_lastUpdated = Str ''2025-01-01T00:00:05.000Z''\<rparr>
        [exampleJob\<lparr>processingId := PStr ''b''\<rparr>]
       = [exampleJob\<lparr>processingId := PStr ''b''\<rparr>]
   \<and> idText exampleHost (PStr ''abc123'') \<notin>
       storeKeys exampleHost
         (fst (pollStatuses exampleHost (answering (Obj [(''status'', Str ''completed'')]))
                 [exampleJob, exampleJob\<lparr>processingId := PStr ''b''\<rparr>]
                 [exampleJob\<lparr>processingId := PStr ''b''\<rparr>]))
   \<and> fst (pollStatuses exampleHost (answering (Obj [(''status'', Str ''completed'')]))
            [exampleJob, exampleJob\<lparr>processingId := PStr ''b''\<rparr>]
            [exampleJob\<lparr>processingId := PStr ''b''\<rparr>])
       = fst (pollStatuses exampleHost (answering (Obj [(''status'', Str ''completed'')]))
                (filter (\<lambda>process. idText exampleHost (processingId process)
                                      \<noteq> idText exampleHost (PStr ''abc123''))
                   [exampleJob, exampleJob\<lparr>processingId := PStr ''b''\<rparr>])
                [exampleJob\<lparr>processingId := PStr ''b''\<rparr>])"
proof -
  let ?s = "[exampleJob\<lparr>processingId := PStr ''b''\<rparr>]"
  let ?current = "[exampleJob, exampleJob\<lparr>processingId := PStr ''b''\<rparr>]"
  have h1: "\<forall>item \<in> set ?s. \<not> strictEquals (processingId item) (PStr ''abc123'')"
    by (simp add: strictEquals_def)
  have h2: "idText exampleHost (PStr ''abc123'') \<notin> storeKeys exampleHost ?s"
    by (simp add: storeKeys_def idText_def)
  have h3: "idText exampleHost (PStr ''abc123'') \<noteq> ''__proto__''"
    by (simp add: idText_def)
  have h4: "plainKeys exampleHost (listActive ?current)"
    by (simp add: plainKeys_def listActive_def idText_def exampleJob_def)
  note t = absent_job_noop [of ?s "PStr ''abc123''" exampleHost
      "\<lparr>u_status = Some Completed, u_percentage = Fin 100, u_stage = Null, u_message = Null,
        u_lastUpdated = Str ''2025-01-01T00:00:05.000Z''\<rparr>" Map.empty ?current
      "answering (Obj [(''status'', Str ''completed'')])"]
  from t [THEN conjunct1] h1
  have c1: "removeProcess (PStr ''abc123'') ?s = ?s" by blast
  from t [THEN conjunct2, THEN conjunct1] h2 h3
  have c2: "updateProcess exampleHost (PStr ''abc123'')
        \<lparr>u_status = Some Completed, u_percentage = Fin 100, u_stage = Null, u_message = Null,
         u_lastUpdated = Str ''2025-01-01T00:00:05.000Z''\<rparr> ?s = ?s"
    by blast
  from t [THEN conjunct2, THEN conjunct2, THEN conjunct1] h2 h4
  have c3: "idText exampleHost (PStr ''abc123'') \<notin>
       storeKeys exampleHost
         (fst (pollStatuses exampleHost (answering (Obj [(''status'', Str ''completed'')])) ?current ?s))
     \<and> fst (pollStatuses exampleHost (answering (Obj [(''status'', Str ''completed'')])) ?current ?s)
       = fst (pollStatuses exampleHost (answering (Obj [(''status'', Str ''completed'')]))
                (filter (\<lambda>process. idText exampleHost (processingId process)
                                      \<noteq> idText exampleHost (PStr ''abc123'')) ?current) ?s)"
    by blast
  have h0: "\<not> strictEquals (processingId (exampleJob\<lparr>processingId := PStr ''b''\<rparr>)) (PStr ''abc123'')"
    by (simp add: strictEquals_def)
  from h0 h2 h3 h4 c1 c2 c3 show ?thesis by blast
qed

section \<open>A status request that fails\<close>




section \<open>Persisting and reloading the store\<close>

lemma reloaded_wellFormed: "wellFormed p \<Longrightarrow> reloaded h now p = p"
proof -
  assume w: "wellFormed p"
  then have "processingId (reloaded h now p) = processingId p"
    by (simp add: wellFormed_def reloaded_text)
  moreover from w have "reloaded h now (p\<lparr>processingId := v\<rparr>)\<lparr>processingId := v\<rparr>
                          = p\<lparr>processingId := v\<rparr>" for v
    by (cases "stage p"; cases "message p"; cases "notificationId p"; cases "lastUpdated p")
       (simp_all add: wellFormed_def reloaded_def coalesce_def nullish_def)
  from this [of "processingId p"] have "reloaded h now p\<lparr>processingId := processingId p\<rparr> = p"
    by simp
  ultimately show ?thesis
    by (metis UploadProcess.surjective UploadProcess.update_convs(1))
qed

lemma wellFormed_truthy: "wellFormed p \<Longrightarrow> truthy (ofPrim (processingId p))"
  by (cases "processingId p") (simp_all add: wellFormed_def)

lemma load_wellFormed:
  "list_all wellFormed ps \<Longrightarrow>
   filter (\<lambda>item. truthy (ofPrim (processingId item))) (map (reloaded h now) ps) = ps"
  by (induction ps) (simp_all add: reloaded_wellFormed wellFormed_truthy)

lemma text_truthy: "textId v \<Longrightarrow> truthy (ofPrim v) = (v \<noteq> PStr [])"
  by (cases v) simp_all

lemma filter_texts:
  "list_all (\<lambda>p. textId (processingId p)) loaded \<Longrightarrow>
   filter (\<lambda>item. truthy (ofPrim (processingId item))) loaded
     = filter (\<lambda>p. processingId p \<noteq> PStr []) loaded"
  by (induction loaded) (simp_all add: text_truthy)

lemma convertible_coalesce: "convertible a \<Longrightarrow> convertible b \<Longrightarrow> convertible (coalesce a b)"
  by (simp add: coalesce_def)

lemma loadItem_status:
  assumes "loadable item" and "normalizeApiStatus (optProp item ''status'') = Inr st"
  shows "\<exists>p. loadItem h now item = Inr p \<and> status p = st"
proof -
  from assms(1) have "\<not> nullish item"
    and "convertible (optProp item ''processingId'')"
    and "convertible (coalesce (optProp item ''collectionName'') (Str []))"
    and "convertible (coalesce (optProp item ''sourceUrl'') (Str []))"
    and "convertible (optProp item ''percentage'')"
    by (simp_all add: loadable_def convertible_coalesce)
  with assms(2) show ?thesis
    by (simp add: loadItem_def getProp_def String_js_def Number_js_def)
qed

lemma normalizeApiStatus_falsy: "\<not> truthy v \<Longrightarrow> normalizeApiStatus v = Inr In_progress"
  by (simp add: normalizeApiStatus_def)

lemma normalizeApiStatus_unknown:
  "toLowerCase t \<notin> {''completed'', ''finished'', ''done'', ''error'', ''failed'',
                      ''failed_with_errors'', ''cancelled''} \<Longrightarrow>
   normalizeApiStatus (Str t) = Inr In_progress"
proof -
  assume a: "toLowerCase t \<notin> {''completed'', ''finished'', ''done'', ''error'', ''failed'',
                      ''failed_with_errors'', ''cancelled''}"
  define l where "l = toLowerCase t"
  from a have "l \<notin> {''completed'', ''finished'', ''done'', ''error'', ''failed'',
                      ''failed_with_errors'', ''cancelled''}"
    unfolding l_def .
  then have "(if l \<in> {''completed'', ''finished'', ''done''} then Completed
            else if l \<in> {''error'', ''failed'', ''failed_with_errors'', ''cancelled''} then Error
            else In_progress) = In_progress"
    by simp
  then show ?thesis by (simp only: normalizeApiStatus_Str l_def)
qed

lemma loadItem_percentage:
  "loadItem h now item = Inr p \<Longrightarrow> \<not> isFinite (numberOf h (optProp item ''percentage'')) \<Longrightarrow>
   percentage p = Fin 0"
  by (auto simp: loadItem_def getProp_def Number_js_def Let_def split: if_splits sum.splits)

lemma loadable_loads: "loadable item \<Longrightarrow> \<exists>p. loadItem h now item = Inr p"
proof -
  assume l: "loadable item"
  then have "\<exists>st. normalizeApiStatus (optProp item ''status'') = Inr st"
  proof (cases "truthy (optProp item ''status'')")
    case False
    then show ?thesis by (simp add: normalizeApiStatus_falsy)
  next
    case True
    with l obtain t where "optProp item ''status'' = Str t"
      by (cases "optProp item ''status''") (simp_all add: loadable_def)
    then show ?thesis by (simp only: normalizeApiStatus_Str) blast
  qed
  with l show ?thesis by (auto dest: loadItem_status)
qed

lemma loadable_all_load:
  "list_all loadable items \<Longrightarrow> \<exists>loaded. loadItems h now items = Inr loaded \<and> length loaded = length items"
proof (induction items)
  case Nil
  then show ?case by simp
next
  case (Cons item items)
  then obtain loaded where "loadItems h now items = Inr loaded" and "length loaded = length items"
    by auto
  moreover from Cons.prems obtain p where "loadItem h now item = Inr p"
    using loadable_loads [of item h now] by auto
  ultimately show ?case by simp
qed

lemmas load_eval =
  loadProcesses_def loadItem_def getProp_def processJson_def jsonProperty_def normalizeApiStatus_def
  toLowerCase_def toLowerChar_def coalesce_def nullish_def exampleJob_def exampleHost_def
  String_js_def Number_js_def Let_def

text \<open>
  Claim C4 has a malformed field defaulted and its record kept. A status that is truthy
  and not a text (here the number 5) makes the normalizer throw inside the initializer's
  \<open>try\<close>; the \<open>catch\<close> answers with the empty store, so the record is not defaulted and the
  well-formed record beside it is lost too. A \<open>null\<close> element does the same.
\<close>

theorem truthy_status_empties_load:
  "loadProcesses exampleHost ''2025-01-02T00:00:00.000Z''
     (Json (Arr [Obj [(''processingId'', Str ''a''), (''status'', Num (Fin 5)),
                      (''percentage'', Num (Fin 10))],
                 processJson exampleJob])) = []
   \<and> loadProcesses exampleHost ''2025-01-02T00:00:00.000Z''
     (Json (Arr [Null, processJson exampleJob])) = []"
  by (simp add: load_eval)

text \<open>
  Claim C4, as the source has it. Persisting a store of well-formed records and loading
  it back gives the same store, hence the same active jobs. On load, an element that the
  mapping accepts (\<open>loadable\<close>) and whose status is falsy (absent, \<open>null\<close>, empty) or a text
  that is none of the seven words becomes a record with status \<open>in_progress\<close>; a
  percentage whose number is not finite becomes 0; when the mapping accepts every
  element, every element becomes a record, and the records with a non-empty identifier
  are the loaded store. The load never throws: nothing stored, a text that does not
  parse, a value that is not an array, and an array on which the mapping throws all give
  the empty store.
\<close>

theorem load_defaults_and_round_trip:
  "(list_all wellFormed ps \<longrightarrow> loadProcesses h now (persistProcesses ps) = ps)
   \<and> (loadable item \<and> \<not> truthy (optProp item ''status'') \<longrightarrow>
        (\<exists>p. loadItem h now item = Inr p \<and> status p = In_progress))
   \<and> (loadable item \<and> optProp item ''status'' = Str t
        \<and> toLowerCase t \<notin> {''completed'', ''finished'', ''done'', ''error'', ''failed'',
                               ''failed_with_errors'', ''cancelled''} \<longrightarrow>
        (\<exists>p. loadItem h now item = Inr p \<and> status p = In_progress))
   \<and> (loadItem h now item = Inr p \<and> \<not> isFinite (numberOf h (optProp item ''percentage'')) \<longrightarrow>
        percentage p = Fin 0)
   \<and> (list_all loadable items \<longrightarrow>
        (\<exists>loaded. loadItems h now items = Inr loaded \<and> length loaded = length items))
   \<and> (loadItems h now items = Inr loaded \<longrightarrow>
        loadProcesses h now (Json (Arr items)) = filter (\<lambda>p. processingId p \<noteq> PStr []) loaded)
   \<and> loadProcesses h now NoItem = []
   \<and> loadProcesses h now Invalid = []
   \<and> (\<not> isArray v \<longrightarrow> loadProcesses h now (Json v) = [])
   \<and> (loadItems h now items = Inl e \<longrightarrow> loadProcesses h now (Json (Arr items)) = [])"
proof (intro conjI impI)
  assume "list_all wellFormed ps"
  then show "loadProcesses h now (persistProcesses ps) = ps"
    by (simp only: load_persist load_wellFormed)
next
  assume "loadable item \<and> \<not> truthy (optProp item ''status'')"
  then show "\<exists>p. loadItem h now item = Inr p \<and> status p = In_progress"
    by (auto intro: loadItem_status normalizeApiStatus_falsy)
next
  assume a: "loadable item \<and> optProp item ''status'' = Str t
        \<and> toLowerCase t \<notin> {''completed'', ''finished'', ''done'', ''error'', ''failed'',
                               ''failed_with_errors'', ''cancelled''}"
  have "normalizeApiStatus (Str t) = Inr In_progress"
    by (rule normalizeApiStatus_unknown) (rule a [THEN conjunct2, THEN conjunct2])
  then have "normalizeApiStatus (optProp item ''status'') = Inr In_progress"
    by (simp only: a [THEN conjunct2, THEN conjunct1])
  with a show "\<exists>p. loadItem h now item = Inr p \<and> status p = In_progress"
    using loadItem_status [of item In_progress h now] by blast
next
  assume "loadItem h now item = Inr p \<and> \<not> isFinite (numberOf h (optProp item ''percentage''))"
  then show "percentage p = Fin 0" by (blast intro: loadItem_percentage)
next
  assume "list_all loadable items"
  then show "\<exists>loaded. loadItems h now items = Inr loaded \<and> length loaded = length items"
    by (rule loadable_all_load)
next
  assume "loadItems h now items = Inr loaded"
  then show "loadProcesses h now (Json (Arr items)) = filter (\<lambda>p. processingId p \<noteq> PStr []) loaded"
    by (simp add: loadProcesses_def filter_texts loadItems_text)
next
  show "loadProcesses h now NoItem = []" by (simp add: loadProcesses_def)
  show "loadProcesses h now Invalid = []" by (simp add: loadProcesses_def)
next
  assume "\<not> isArray v"
  then show "loadProcesses h now (Json v) = []" by (cases v) (simp_all add: loadProcesses_def)
next
  assume "loadItems h now items = Inl e"
  then show "loadProcesses h now (Json (Arr items)) = []" by (simp add: loadProcesses_def)
qed

text \<open>The theorem at the store holding the example job, and at a persisted record without a
  status and with a percentage that is not a number.\<close>

theorem load_defaults_and_round_trip_witness:
  "list_all wellFormed [exampleJob]
   \<and> loadProcesses exampleHost ''2025-01-02T00:00:00.000Z'' (persistProcesses [exampleJob]) = [exampleJob]
   \<and> loadable (Obj [(''processingId'', Str ''a''), (''percentage'', Str ''abc'')])
   \<and> \<not> truthy (optProp (Obj [(''processingId'', Str ''a''), (''percentage'', Str ''abc'')]) ''status'')
   \<and> (\<exists>p. loadItem exampleHost ''2025-01-02T00:00:00.000Z''
              (Obj [(''processingId'', Str ''a''), (''percentage'', Str ''abc'')]) = Inr p
            \<and> status p = In_progress)"
proof -
  have h1: "list_all wellFormed [exampleJob]" by (simp add: wellFormed_def exampleJob_def)
  have h2: "loadable (Obj [(''processingId'', Str ''a''), (''percentage'', Str ''abc'')])
     \<and> \<not> truthy (optProp (Obj [(''processingId'', Str ''a''), (''percentage'', Str ''abc'')]) ''status'')"
    by (simp add: loadable_def nullish_def)
  note t = load_defaults_and_round_trip [of "[exampleJob]" exampleHost "''2025-01-02T00:00:00.000Z''"
      "Obj [(''processingId'', Str ''a''), (''percentage'', Str ''abc'')]"]
  from t [THEN conjunct1] h1
  have "loadProcesses exampleHost ''2025-01-02T00:00:00.000Z'' (persistProcesses [exampleJob]) = [exampleJob]"
    by (rule mp)
  moreover from t [THEN conjunct2, THEN conjunct1] h2
  have "\<exists>p. loadItem exampleHost ''2025-01-02T00:00:00.000Z''
              (Obj [(''processingId'', Str ''a''), (''percentage'', Str ''abc'')]) = Inr p
            \<and> status p = In_progress"
    by (rule mp)
  ultimately show ?thesis using h1 h2 by blast
qed

section \<open>The timer of the poller\<close>

lemma mounted_inv: "pollerInv mountedPoller"
  by (simp add: pollerInv_def mountedPoller_def)

lemma commit_inv:
  assumes "pollerInv st"
  shows "pollerInv (commitRender baseUrl processes st)"
    and "lastDeps (commitRender baseUrl processes st) = Some (baseUrl, hasActiveProcesses processes)"
  using assms
  by (auto simp: pollerInv_def commitRender_def pollingEffect_def clearPollingInterval_def Let_def
      split: option.splits)

lemma renders_snoc:
  "renders (rs @ [(baseUrl, processes)]) st = commitRender baseUrl processes (renders rs st)"
  by (simp add: renders_def)

lemma renders_inv: "pollerInv st \<Longrightarrow> pollerInv (renders rs st)"
proof (induction rs rule: rev_induct)
  case Nil
  then show ?case by (simp add: renders_def)
next
  case (snoc r rs)
  obtain baseUrl processes where "r = (baseUrl, processes)" by (cases r)
  with snoc show ?case by (simp add: renders_snoc commit_inv)
qed

lemma hasActive_listActive: "hasActiveProcesses ps = (listActive ps \<noteq> [])"
  by (simp add: hasActiveProcesses_def listActive_def list_ex_iff filter_empty_conv)

lemma timer_after_commit:
  assumes "pollerInv st"
  shows "(liveTimers (commitRender baseUrl processes st) \<noteq> {}) = (listActive processes \<noteq> [])"
    and "card (liveTimers (commitRender baseUrl processes st)) \<le> 1"
proof -
  from commit_inv [OF assms, of baseUrl processes]
  have inv: "pollerInv (commitRender baseUrl processes st)"
    and deps: "lastDeps (commitRender baseUrl processes st) = Some (baseUrl, hasActiveProcesses processes)"
    by simp_all
  from inv deps show "(liveTimers (commitRender baseUrl processes st) \<noteq> {}) = (listActive processes \<noteq> [])"
    by (cases "intervalRef (commitRender baseUrl processes st)")
       (simp_all add: pollerInv_def hasActive_listActive)
  from inv show "card (liveTimers (commitRender baseUrl processes st)) \<le> 1"
    by (cases "intervalRef (commitRender baseUrl processes st)") (simp_all add: pollerInv_def)
qed

text \<open>
  Claim C8. Before the first render no timer runs. After every committed render a timer
  runs exactly when the store of that render has a job in progress, and at most one
  does. So from one render to the next the poller goes from Idle to Polling exactly when
  the number of jobs in progress goes from 0 to more than 0, and from Polling to Idle
  exactly when it goes back to 0.
\<close>

theorem poller_two_states:
  "pollerState mountedPoller = Idle
   \<and> (liveTimers (renders (rs @ [(baseUrl, processes)]) mountedPoller) \<noteq> {})
       = (listActive processes \<noteq> [])
   \<and> card (liveTimers (renders (rs @ [(baseUrl, processes)]) mountedPoller)) \<le> 1
   \<and> ((pollerState (renders (rs @ [(baseUrl, processes)]) mountedPoller) = Idle
        \<and> pollerState (commitRender baseUrl' processes'
                         (renders (rs @ [(baseUrl, processes)]) mountedPoller)) = Polling)
       = (length (listActive processes) = 0 \<and> 0 < length (listActive processes')))
   \<and> ((pollerState (renders (rs @ [(baseUrl, processes)]) mountedPoller) = Polling
        \<and> pollerState (commitRender baseUrl' processes'
                         (renders (rs @ [(baseUrl, processes)]) mountedPoller)) = Idle)
       = (0 < length (listActive processes) \<and> length (listActive processes') = 0))"
proof -
  let ?st = "renders (rs @ [(baseUrl, processes)]) mountedPoller"
  have inv0: "pollerInv (renders rs mountedPoller)" by (rule renders_inv) (rule mounted_inv)
  have st: "?st = commitRender baseUrl processes (renders rs mountedPoller)" by (rule renders_snoc)
  have inv: "pollerInv ?st" by (rule renders_inv) (rule mounted_inv)
  have a: "(liveTimers ?st \<noteq> {}) = (listActive processes \<noteq> [])"
    unfolding st by (rule timer_after_commit [OF inv0])
  have b: "card (liveTimers ?st) \<le> 1"
    unfolding st by (rule timer_after_commit [OF inv0])
  have c: "(liveTimers (commitRender baseUrl' processes' ?st) \<noteq> {}) = (listActive processes' \<noteq> [])"
    by (rule timer_after_commit [OF inv])
  have "pollerState mountedPoller = Idle" by (simp add: pollerState_def mountedPoller_def)
  with a b c show ?thesis by (auto simp: pollerState_def)
qed

text \<open>The theorem at an empty store, then the example job in progress, then completed.\<close>

theorem poller_two_states_witness:
  "pollerState (renders ([(''http://localhost:8000'', [])] @ [(''http://localhost:8000'', [exampleJob])])
                  mountedPoller) = Polling
   \<and> pollerState (commitRender ''http://localhost:8000'' [exampleJob\<lparr>status := Completed\<rparr>]
        (renders ([(''http://localhost:8000'', [])] @ [(''http://localhost:8000'', [exampleJob])])
                  mountedPoller)) = Idle"
  using poller_two_states [of "[(''http://localhost:8000'', [])]" "''http://localhost:8000''" "[exampleJob]"
      "''http://localhost:8000''" "[exampleJob\<lparr>status := Completed\<rparr>]"]
  by (simp add: listActive_def exampleJob_def)

section \<open>The names of the collections\<close>

lemma remdups_drop_repeated: "x \<in> set bs \<Longrightarrow> remdups (as @ x # bs) = remdups (as @ bs)"
  by (induction as) auto

lemma set_insertion_order:
  "distinct acc \<Longrightarrow>
   foldl (\<lambda>acc x. if x \<in> set acc then acc else acc @ [x]) acc xs = rev (remdups (rev (acc @ xs)))"
proof (induction xs arbitrary: acc)
  case Nil
  then show ?case by (simp add: distinct_remdups_id)
next
  case (Cons x xs)
  show ?case
  proof (cases "x \<in> set acc")
    case True
    then have "remdups (rev xs @ x # rev acc) = remdups (rev xs @ rev acc)"
      by (simp add: remdups_drop_repeated)
    with True Cons show ?thesis by simp
  next
    case False
    with Cons.prems have "distinct (acc @ [x])" by simp
    from Cons.IH [OF this] False show ?thesis by simp
  qed
qed

lemma arrayFromSet_firstOccurrences: "arrayFromSet xs = firstOccurrences xs"
  using set_insertion_order [of "[]" xs] by (simp add: arrayFromSet_def firstOccurrences_def)

lemma entryName_entryText: "entryName item = map_option trim (entryText item)"
  by (cases item) (auto split: jsval.splits option.splits)

lemma kept_names:
  "concat (map (\<lambda>item. case entryName item of
                           None \<Rightarrow> []
                         | Some name \<Rightarrow> if name \<noteq> [] \<and> collectionRegexTest name then [name] else [])
               entries)
   = filter collectionRegexTest (map trim (List.map_filter entryText entries))"
  by (induction entries)
     (auto simp: entryName_entryText collectionRegexTest_def split: option.splits)

lemma set_map_filter_Some: "set (List.map_filter f xs) = {y. Some y \<in> f ` set xs}"
  by (induction xs) (auto split: option.splits simp: image_iff)

lemma normalize_array: "normalizeCollectionNames (Arr entries) = trimmedMatches entries"
  by (simp add: normalizeCollectionNames_def kept_names arrayFromSet_firstOccurrences trimmedMatches_def)

lemma normalize_found:
  assumes "List.find isArray
             [payload, optProp payload ''data'', optProp payload ''collections'',
              optProp (optProp payload ''data'') ''collections''] = Some (Arr entries)"
  shows "normalizeCollectionNames payload = trimmedMatches entries"
  using assms
  by (simp add: normalizeCollectionNames_def kept_names arrayFromSet_firstOccurrences trimmedMatches_def
      del: find.simps)

text \<open>
  Claim C9 returns the entries that match the pattern. The source trims each entry
  first and tests the trimmed text: the entry \<open>" docs_1 "\<close> does not match the pattern, and
  is returned as \<open>docs_1\<close>.
\<close>

theorem padded_entry_is_kept:
  "normalizeCollectionNames (Arr [Str '' docs_1 '']) = [''docs_1'']
   \<and> \<not> collectionRegexTest '' docs_1 ''
   \<and> spec_matchingEntries [Str '' docs_1 ''] = []"
  by (simp add: normalizeCollectionNames_def arrayFromSet_def trim_def trimStart_def trimEnd_def
      whiteSpace_def startsWith_def collectionRegexTest_def collectionChar_def spec_matchingEntries_def
      firstOccurrences_def)

text \<open>
  Claim C9, as the source has it. For a bare array, and for an array under \<open>data\<close>, under
  \<open>collections\<close> or under \<open>data.collections\<close> (the first of these that is an array), the
  normalized list is made of the entries' texts, each trimmed of the white space around
  it, that match the pattern, without repetitions and in the order of their first
  occurrence.
\<close>

theorem collection_names_normalized:
  "normalizeCollectionNames (Arr entries) = trimmedMatches entries
   \<and> (\<not> isArray payload \<and> optProp payload ''data'' = Arr entries \<longrightarrow>
        normalizeCollectionNames payload = trimmedMatches entries)
   \<and> (\<not> isArray payload \<and> \<not> isArray (optProp payload ''data'')
        \<and> optProp payload ''collections'' = Arr entries \<longrightarrow>
        normalizeCollectionNames payload = trimmedMatches entries)
   \<and> (\<not> isArray payload \<and> \<not> isArray (optProp payload ''data'')
        \<and> \<not> isArray (optProp payload ''collections'')
        \<and> optProp (optProp payload ''data'') ''collections'' = Arr entries \<longrightarrow>
        normalizeCollectionNames payload = trimmedMatches entries)
   \<and> distinct (trimmedMatches entries)
   \<and> set (trimmedMatches entries) =
       {name. collectionRegexTest name \<and> (\<exists>t. Some t \<in> entryText ` set entries \<and> name = trim t)}"
proof (intro conjI impI)
  show "normalizeCollectionNames (Arr entries) = trimmedMatches entries" by (rule normalize_array)
next
  assume "\<not> isArray payload \<and> optProp payload ''data'' = Arr entries"
  then show "normalizeCollectionNames payload = trimmedMatches entries"
    by (intro normalize_found) simp
next
  assume "\<not> isArray payload \<and> \<not> isArray (optProp payload ''data'')
        \<and> optProp payload ''collections'' = Arr entries"
  then show "normalizeCollectionNames payload = trimmedMatches entries"
    by (intro normalize_found) simp
next
  assume "\<not> isArray payload \<and> \<not> isArray (optProp payload ''data'')
        \<and> \<not> isArray (optProp payload ''collections'')
        \<and> optProp (optProp payload ''data'') ''collections'' = Arr entries"
  then show "normalizeCollectionNames payload = trimmedMatches entries"
    by (intro normalize_found) simp
next
  show "distinct (trimmedMatches entries)"
    by (simp add: trimmedMatches_def firstOccurrences_def)
next
  show "set (trimmedMatches entries) =
       {name. collectionRegexTest name \<and> (\<exists>t. Some t \<in> entryText ` set entries \<and> name = trim t)}"
    by (auto simp: trimmedMatches_def firstOccurrences_def set_map_filter_Some)
qed

text \<open>The theorem at the payload \<open>{"data":{"collections":[{"name":"docs_1"},"docs 2!"]}}\<close>.\<close>

theorem collection_names_normalized_witness:
  "\<not> isArray (Obj [(''data'', Obj [(''collections'', Arr [Obj [(''name'', Str ''docs_1'')], Str ''docs 2!''])])])
   \<and> normalizeCollectionNames
       (Obj [(''data'', Obj [(''collections'', Arr [Obj [(''name'', Str ''docs_1'')], Str ''docs 2!''])])])
     = [''docs_1'']"
proof -
  let ?p = "Obj [(''data'', Obj [(''collections'', Arr [Obj [(''name'', Str ''docs_1'')], Str ''docs 2!''])])]"
  let ?es = "[Obj [(''name'', Str ''docs_1'')], Str ''docs 2!'']"
  have h: "\<not> isArray ?p \<and> \<not> isArray (optProp ?p ''data'')
        \<and> \<not> isArray (optProp ?p ''collections'')
        \<and> optProp (optProp ?p ''data'') ''collections'' = Arr ?es"
    by simp
  have "trimmedMatches ?es = [''docs_1'']"
    by (simp add: trimmedMatches_def firstOccurrences_def trim_def trimStart_def
        trimEnd_def whiteSpace_def startsWith_def collectionRegexTest_def collectionChar_def)
  with collection_names_normalized [of ?es ?p, THEN conjunct2, THEN conjunct2, THEN conjunct2, THEN conjunct1] h
  show ?thesis by simp
qed

section \<open>The default top-K at module load\<close>

text \<open>
  Claim C10. With nothing stored the default stays 5. With a stored text whose number is
  not finite (NaN, an infinity) or not above 0, it stays 5. With a non-empty stored text
  whose number is finite and above 0, the default becomes that number. So the default
  differs from 5 only when the stored text converts to a finite number above 0.
\<close>

theorem seed_top_k:
  "(storedTopK = None \<longrightarrow> seedDefaultTopK h storedTopK = Fin 5)
   \<and> (storedTopK = Some text
        \<and> \<not> (isFinite (stringToNumber h text) \<and> jsGt (stringToNumber h text) (Fin 0)) \<longrightarrow>
        seedDefaultTopK h storedTopK = Fin 5)
   \<and> (storedTopK = Some text \<and> text \<noteq> [] \<and> stringToNumber h text = Fin q \<and> 0 < q \<longrightarrow>
        seedDefaultTopK h storedTopK = Fin q)
   \<and> (seedDefaultTopK h storedTopK \<noteq> Fin 5 \<longrightarrow>
        (\<exists>text q. storedTopK = Some text \<and> stringToNumber h text = Fin q \<and> 0 < q
                  \<and> seedDefaultTopK h storedTopK = Fin q))"
  by (cases storedTopK; cases "stringToNumber h (the storedTopK)")
     (auto simp: seedDefaultTopK_def DEFAULT_TOP_K_def Let_def)

text \<open>The theorem at the stored texts \<open>10\<close>, \<open>0\<close>, \<open>-3\<close>, \<open>abc\<close> and \<open>Infinity\<close>, and at no stored
  text.\<close>

theorem seed_top_k_witness:
  "seedDefaultTopK exampleHost (Some ''10'') = Fin 10
   \<and> seedDefaultTopK exampleHost (Some ''0'') = Fin 5
   \<and> seedDefaultTopK exampleHost (Some ''-3'') = Fin 5
   \<and> seedDefaultTopK exampleHost (Some ''abc'') = Fin 5
   \<and> seedDefaultTopK exampleHost (Some ''Infinity'') = Fin 5
   \<and> seedDefaultTopK exampleHost None = Fin 5"
  using seed_top_k [of "Some ''10''" exampleHost "''10''" 10]
    seed_top_k [of "Some ''0''" exampleHost "''0''"]
    seed_top_k [of "Some ''-3''" exampleHost "''-3''"]
    seed_top_k [of "Some ''abc''" exampleHost "''abc''"]
    seed_top_k [of "Some ''Infinity''" exampleHost "''Infinity''"]
    seed_top_k [of None exampleHost]
  by (simp add: exampleHost_def)

end
